theory Spec2Isabelle
  imports Main
begin

section \<open>Python values\<close>

text \<open>
  The scripts of the repository inspect values that an external binding module returns.
  Nothing in the repository fixes their type, so the model keeps the dynamic type of a
  value: \<open>isinstance(x, str)\<close> is \<open>is_str x\<close>, \<open>isinstance(x, dict)\<close> is \<open>is_dict x\<close>.
  A dict is an association list in insertion order, which is the order in which
  \<open>items()\<close> iterates. A Python dict binds a key once; the list of a dict therefore
  has no key twice, and the theorems below hold for every list, so for those too.
\<close>

datatype pyval =
    PNone
  | PBool bool
  | PInt int
  | PStr string
  | PList "pyval list"
  | PDict "(pyval \<times> pyval) list"

type_synonym pydict = "(pyval \<times> pyval) list"

fun is_str :: "pyval \<Rightarrow> bool" where
  "is_str (PStr s) = True"
| "is_str v = False"

fun is_dict :: "pyval \<Rightarrow> bool" where
  "is_dict (PDict d) = True"
| "is_dict v = False"

text \<open>Truth value testing, as \<open>assertTrue\<close> and \<open>or\<close> apply it.\<close>

fun truthy :: "pyval \<Rightarrow> bool" where
  "truthy PNone = False"
| "truthy (PBool b) = b"
| "truthy (PInt i) = (i \<noteq> 0)"
| "truthy (PStr s) = (s \<noteq> [])"
| "truthy (PList xs) = (xs \<noteq> [])"
| "truthy (PDict d) = (d \<noteq> [])"

text \<open>
  Every key the scripts look up is a string literal. A string is equal to a string of
  the same characters only, so the lookup is the lookup of \<open>PStr k\<close>.
\<close>

definition dict_lookup :: "pydict \<Rightarrow> string \<Rightarrow> pyval option" where
  "dict_lookup d k = map_of d (PStr k)"

text \<open>\<open>k in d\<close>\<close>

definition dict_contains :: "pydict \<Rightarrow> string \<Rightarrow> bool" where
  "dict_contains d k = (dict_lookup d k \<noteq> None)"

text \<open>\<open>d.get(k)\<close>, with the default \<open>None\<close>\<close>

definition dict_get :: "pydict \<Rightarrow> string \<Rightarrow> pyval" where
  "dict_get d k = (case dict_lookup d k of None \<Rightarrow> PNone | Some v \<Rightarrow> v)"

text \<open>\<open>v == s\<close> for a string literal \<open>s\<close>, as \<open>assertEqual\<close> compares.\<close>

fun equals_str :: "pyval \<Rightarrow> string \<Rightarrow> bool" where
  "equals_str (PStr t) s = (t = s)"
| "equals_str v s = False"

section \<open>Exceptions and the external module\<close>

datatype error =
    SkipTest
  | AssertionError
  | KeyError
  | ImportError
  | AttributeError
  | OSError
  | RuntimeError

text \<open>
  The binding module is not part of the repository. A call of one of its entry points,
  which take no argument, either returns a value or raises.
\<close>

record pymodule =
  buildinfo :: "error + pyval"
  greet :: "error + pyval"

text \<open>
  What the scripts use of the interpreter and its library: \<open>str(Path(p).resolve())\<close>,
  which returns a string or raises (a symbolic-link loop, a working directory that no
  longer exists); the search for a module by name along a search path, which returns the
  module or raises; and the text that \<open>pprint.pp\<close> prints for a value.
\<close>

record world =
  resolve :: "string \<Rightarrow> error + string"
  import_module :: "string list \<Rightarrow> string \<Rightarrow> error + pymodule"
  pformat :: "pyval \<Rightarrow> string"

text \<open>
  The state the scripts change: \<open>sys.argv\<close>, \<open>sys.path\<close>, standard output, and the
  imports made so far, each with the search path it ran with.
\<close>

record py_state =
  argv :: "string list"
  sys_path :: "string list"
  stdout :: "string list"
  import_log :: "(string \<times> string list) list"

text \<open>
  An import, as a statement or through \<open>importlib.import_module\<close>: the module is
  searched along \<open>sys.path\<close> as it is at that moment. This is the only place where a
  module is looked for and the only place where \<open>import_log\<close> grows.
\<close>

definition py_import :: "world \<Rightarrow> string \<Rightarrow> py_state \<Rightarrow> (error + pymodule) \<times> py_state" where
  "py_import w name s =
     (import_module w (sys_path s) name,
      s\<lparr>import_log := import_log s @ [(name, sys_path s)]\<rparr>)"

text \<open>
  How the run of a test file ends. The statements at the module level run in order; an
  exception that leaves one of them ends the program with a traceback, and the
  statements after it, \<open>unittest.main()\<close> among them, do not run. What
  \<open>unittest.main()\<close> reports for the result of a test method is the library's business.
\<close>

datatype script_outcome =
    Uncaught error
  | UnittestMain "error + unit"

section \<open>tests/python/test_buildinfo.py\<close>

definition test_buildinfo_load_module ::
    "world \<Rightarrow> py_state \<Rightarrow> (error + pymodule) \<times> py_state" where
  "test_buildinfo_load_module w s =
     (if length (argv s) < 2 then (Inl SkipTest, s)
      else
        (case resolve w (argv s ! 1) of
           Inl e \<Rightarrow> (Inl e, s)
         | Inr bindings_dir \<Rightarrow>
             let s1 = s\<lparr>sys_path := bindings_dir # sys_path s\<rparr>;
                 s2 = s1\<lparr>argv := [argv s1 ! 0]\<rparr>
             in py_import w ''uni20'' s2))"

definition assertTrue :: "bool \<Rightarrow> error + unit" where
  "assertTrue b = (if b then Inr () else Inl AssertionError)"

text \<open>\<open>d[k]\<close>\<close>

definition dict_item :: "pydict \<Rightarrow> string \<Rightarrow> error + pyval" where
  "dict_item d k = (case dict_lookup d k of None \<Rightarrow> Inl KeyError | Some v \<Rightarrow> Inr v)"

definition expected_keys :: "string list" where
  "expected_keys =
     [''generator'', ''build_type'', ''system_name'', ''system_version'',
      ''system_processor'', ''cxx_compiler_id'', ''cxx_compiler_version'',
      ''cxx_compiler_path'']"

text \<open>The body of the loop over \<open>expected_keys\<close> (lines 47 and 48).\<close>

definition check_expected_key :: "pydict \<Rightarrow> string \<Rightarrow> error + unit" where
  "check_expected_key info key =
     (case dict_item info key of
        Inl e \<Rightarrow> Inl e
      | Inr v \<Rightarrow>
          (case assertTrue (is_str v) of
             Inl e \<Rightarrow> Inl e
           | Inr u \<Rightarrow> assertTrue (truthy v)))"

fun check_expected_keys :: "pydict \<Rightarrow> string list \<Rightarrow> error + unit" where
  "check_expected_keys info [] = Inr ()"
| "check_expected_keys info (key # keys) =
     (case check_expected_key info key of
        Inl e \<Rightarrow> Inl e
      | Inr u \<Rightarrow> check_expected_keys info keys)"

text \<open>Lines 45 to 48: the subset assertion, then the loop.\<close>

definition check_required_fields :: "pydict \<Rightarrow> error + unit" where
  "check_required_fields info =
     (case assertTrue (list_all (dict_contains info) expected_keys) of
        Inl e \<Rightarrow> Inl e
      | Inr u \<Rightarrow> check_expected_keys info expected_keys)"

text \<open>The body of the loop over \<open>info[collection].items()\<close> (lines 56 to 62).\<close>

fun check_entry :: "pyval \<times> pyval \<Rightarrow> error + unit" where
  "check_entry (option_name, metadata) =
     (case assertTrue (is_str option_name) of
        Inl e \<Rightarrow> Inl e
      | Inr u \<Rightarrow>
     (case metadata of
        PDict m \<Rightarrow>
          (case assertTrue (dict_contains m ''value'') of
             Inl e \<Rightarrow> Inl e
           | Inr u \<Rightarrow>
          (case dict_item m ''value'' of
             Inl e \<Rightarrow> Inl e
           | Inr v \<Rightarrow>
          (case assertTrue (is_str v) of
             Inl e \<Rightarrow> Inl e
           | Inr u \<Rightarrow>
          (case assertTrue (truthy v \<or> truthy (dict_get m ''help'')) of
             Inl e \<Rightarrow> Inl e
           | Inr u \<Rightarrow>
          (if dict_contains m ''help'' then
             (case dict_item m ''help'' of
                Inl e \<Rightarrow> Inl e
              | Inr h \<Rightarrow> assertTrue (is_str h))
           else Inr ())))))
      | _ \<Rightarrow> Inl AssertionError))"

fun check_entries :: "pydict \<Rightarrow> error + unit" where
  "check_entries [] = Inr ()"
| "check_entries (entry # entries) =
     (case check_entry entry of
        Inl e \<Rightarrow> Inl e
      | Inr u \<Rightarrow> check_entries entries)"

text \<open>The body of the loop over the two collections (lines 51 to 62).\<close>

definition check_collection :: "pydict \<Rightarrow> string \<Rightarrow> error + unit" where
  "check_collection info collection =
     (case assertTrue (dict_contains info collection) of
        Inl e \<Rightarrow> Inl e
      | Inr u \<Rightarrow>
     (case dict_item info collection of
        Inl e \<Rightarrow> Inl e
      | Inr c \<Rightarrow>
     (case c of
        PDict entries \<Rightarrow>
          (case assertTrue (truthy c) of
             Inl e \<Rightarrow> Inl e
           | Inr u \<Rightarrow> check_entries entries)
      | _ \<Rightarrow> Inl AssertionError)))"

fun check_collections :: "pydict \<Rightarrow> string list \<Rightarrow> error + unit" where
  "check_collections info [] = Inr ()"
| "check_collections info (collection # collections) =
     (case check_collection info collection of
        Inl e \<Rightarrow> Inl e
      | Inr u \<Rightarrow> check_collections info collections)"

definition collection_names :: "string list" where
  "collection_names = [''build_options'', ''detected_environment'']"

text \<open>The assertions on the value \<open>buildinfo()\<close> returned (lines 32 to 62).\<close>

definition check_info :: "pyval \<Rightarrow> error + unit" where
  "check_info v =
     (case v of
        PDict info \<Rightarrow>
          (case check_required_fields info of
             Inl e \<Rightarrow> Inl e
           | Inr u \<Rightarrow> check_collections info collection_names)
      | _ \<Rightarrow> Inl AssertionError)"

definition test_buildinfo_reports_metadata :: "pymodule \<Rightarrow> error + unit" where
  "test_buildinfo_reports_metadata m =
     (case buildinfo m of
        Inl e \<Rightarrow> Inl e
      | Inr info \<Rightarrow> check_info info)"

text \<open>
  The file run as a program: line 23 loads the module while the module level is
  executed, and \<open>unittest.main()\<close> in line 66 runs the test method only if line 23
  returned.
\<close>

definition test_buildinfo_script ::
    "world \<Rightarrow> py_state \<Rightarrow> script_outcome \<times> py_state" where
  "test_buildinfo_script w s =
     (case test_buildinfo_load_module w s of
        (Inl e, s') \<Rightarrow> (Uncaught e, s')
      | (Inr m, s') \<Rightarrow> (UnittestMain (test_buildinfo_reports_metadata m), s'))"

section \<open>tests/python/test_greet.py\<close>

definition test_greet_load_module ::
    "world \<Rightarrow> py_state \<Rightarrow> (error + pymodule) \<times> py_state" where
  "test_greet_load_module w s =
     (if length (argv s) < 2 then (Inl SkipTest, s)
      else
        (case resolve w (argv s ! 1) of
           Inl e \<Rightarrow> (Inl e, s)
         | Inr bindings_dir \<Rightarrow>
             let s1 = s\<lparr>sys_path := bindings_dir # sys_path s\<rparr>;
                 s2 = s1\<lparr>argv := [argv s1 ! 0]\<rparr>
             in py_import w ''uni20_python'' s2))"

definition test_greet_returns_expected_message :: "pymodule \<Rightarrow> error + unit" where
  "test_greet_returns_expected_message m =
     (case greet m of
        Inl e \<Rightarrow> Inl e
      | Inr v \<Rightarrow> assertTrue (equals_str v ''Hello from uni20!''))"

text \<open>The file run as a program: line 23 first, \<open>unittest.main()\<close> in line 34 after it.\<close>

definition test_greet_script ::
    "world \<Rightarrow> py_state \<Rightarrow> script_outcome \<times> py_state" where
  "test_greet_script w s =
     (case test_greet_load_module w s of
        (Inl e, s') \<Rightarrow> (Uncaught e, s')
      | (Inr m, s') \<Rightarrow> (UnittestMain (test_greet_returns_expected_message m), s'))"

section \<open>examples/python_buildinfo_example.py\<close>

definition main :: "world \<Rightarrow> py_state \<Rightarrow> (error + unit) \<times> py_state" where
  "main w s =
     (case (if length (argv s) > 1 then
              (case resolve w (argv s ! 1) of
                 Inl e \<Rightarrow> Inl e
               | Inr bindings_dir \<Rightarrow> Inr (s\<lparr>sys_path := bindings_dir # sys_path s\<rparr>))
            else Inr s) of
        Inl e \<Rightarrow> (Inl e, s)
      | Inr s1 \<Rightarrow>
          (case py_import w ''uni20'' s1 of
             (Inl e, s2) \<Rightarrow> (Inl e, s2)
           | (Inr uni20, s2) \<Rightarrow>
               (case buildinfo uni20 of
                  Inl e \<Rightarrow> (Inl e, s2)
                | Inr info \<Rightarrow> (Inr (), s2\<lparr>stdout := stdout s2 @ [pformat w info]\<rparr>))))"

section \<open>What the specification says of an entry\<close>



section \<open>Sample inputs\<close>

definition sample_options :: pydict where
  "sample_options =
     [(PStr ''UNI20_BUILD_TESTS'',
         PDict [(PStr ''value'', PStr ''ON''), (PStr ''help'', PStr ''Build the tests'')]),
      (PStr ''UNI20_BLAS_VENDOR'',
         PDict [(PStr ''value'', PStr []), (PStr ''help'', PStr ''BLAS vendor'')])]"

definition sample_environment :: pydict where
  "sample_environment =
     [(PStr ''BLAS_LIBRARIES'', PDict [(PStr ''value'', PStr ''/usr/lib/libblas.so'')])]"

definition sample_info :: pydict where
  "sample_info =
     [(PStr ''generator'', PStr ''Ninja''),
      (PStr ''build_type'', PStr ''Release''),
      (PStr ''system_name'', PStr ''Linux''),
      (PStr ''system_version'', PStr ''6.1''),
      (PStr ''system_processor'', PStr ''x86_64''),
      (PStr ''cxx_compiler_id'', PStr ''GNU''),
      (PStr ''cxx_compiler_version'', PStr ''13.2''),
      (PStr ''cxx_compiler_path'', PStr ''/usr/bin/c++''),
      (PStr ''build_options'', PDict sample_options),
      (PStr ''detected_environment'', PDict sample_environment)]"

definition sample_module :: pymodule where
  "sample_module =
     \<lparr>buildinfo = Inr (PDict sample_info), greet = Inr (PStr ''Hello from uni20!'')\<rparr>"

definition sample_greet_module :: pymodule where
  "sample_greet_module =
     \<lparr>buildinfo = Inl AttributeError, greet = Inr (PStr ''Hello from uni20!'')\<rparr>"

text \<open>
  A world whose directory \<open>/work/build\<close> holds a module \<open>uni20\<close> and a module
  \<open>uni20_python\<close>, and a world in which no path can be resolved.
\<close>

definition sample_world :: world where
  "sample_world =
     \<lparr>resolve = (\<lambda>p. Inr (''/work/'' @ p)),
      import_module = (\<lambda>path name.
         if ''/work/build'' \<in> set path \<and> name = ''uni20'' then Inr sample_module
         else if ''/work/build'' \<in> set path \<and> name = ''uni20_python''
         then Inr sample_greet_module
         else Inl ImportError),
      pformat = (\<lambda>v. case v of PStr t \<Rightarrow> t | _ \<Rightarrow> ''{...}'')\<rparr>"

definition sample_world_no_cwd :: world where
  "sample_world_no_cwd = sample_world\<lparr>resolve := (\<lambda>p. Inl OSError)\<rparr>"

definition sample_state :: py_state where
  "sample_state =
     \<lparr>argv = [''test.py'', ''build'', ''-v''],
      sys_path = [''/usr/lib/python3''],
      stdout = [],
      import_log = []\<rparr>"

definition sample_state_no_dir :: py_state where
  "sample_state_no_dir = sample_state\<lparr>argv := [''test.py'']\<rparr>"




definition sample_info_no_environment :: pydict where
  "sample_info_no_environment = butlast sample_info"


definition sample_info_extra :: pydict where
  "sample_info_extra = sample_info @ [(PStr ''git_revision'', PStr ''0a1b2c3'')]"

section \<open>The assertions, unfolded\<close>

lemma assertTrue_Inr [simp]: "assertTrue b = Inr u \<longleftrightarrow> b"
  by (simp add: assertTrue_def)

lemma assertTrue_Inl [simp]: "assertTrue b = Inl e \<longleftrightarrow> \<not> b \<and> e = AssertionError"
  by (auto simp: assertTrue_def)

lemma is_str_iff: "is_str v \<longleftrightarrow> (\<exists>s. v = PStr s)"
  by (cases v) auto

lemma check_expected_key_unfold:
  "check_expected_key info k =
     (case dict_lookup info k of
        None \<Rightarrow> Inl KeyError
      | Some v \<Rightarrow> if is_str v \<and> truthy v then Inr () else Inl AssertionError)"
  by (simp add: check_expected_key_def dict_item_def assertTrue_def split: option.split)

lemma check_expected_key_ok:
  "check_expected_key info k = Inr () \<longleftrightarrow> (\<exists>s. dict_lookup info k = Some (PStr s) \<and> s \<noteq> [])"
proof (cases "dict_lookup info k")
  case None
  then show ?thesis by (simp add: check_expected_key_unfold)
next
  case (Some v)
  then show ?thesis by (cases v) (simp_all add: check_expected_key_unfold)
qed

lemma check_expected_key_fail:
  "dict_contains info k \<Longrightarrow> check_expected_key info k \<noteq> Inr () \<Longrightarrow>
     check_expected_key info k = Inl AssertionError"
  by (cases "dict_lookup info k")
     (simp_all add: check_expected_key_unfold dict_contains_def split: if_splits)

lemma check_expected_keys_Cons:
  "check_expected_keys info (k # ks) = Inr () \<longleftrightarrow>
     check_expected_key info k = Inr () \<and> check_expected_keys info ks = Inr ()"
  by (cases "check_expected_key info k") simp_all


lemma check_expected_keys_ok:
  "check_expected_keys info ks = Inr () \<longleftrightarrow>
     (\<forall>k\<in>set ks. \<exists>s. dict_lookup info k = Some (PStr s) \<and> s \<noteq> [])"
proof (induction ks)
  case Nil
  show ?case by simp
next
  case (Cons k ks)
  show ?case
    unfolding check_expected_keys_Cons Cons.IH check_expected_key_ok by simp
qed

lemma check_expected_keys_fail:
  "list_all (dict_contains info) ks \<Longrightarrow> check_expected_keys info ks \<noteq> Inr () \<Longrightarrow>
     check_expected_keys info ks = Inl AssertionError"
proof (induction ks)
  case Nil
  then show ?case by simp
next
  case (Cons k ks)
  from Cons.prems(1) have c: "dict_contains info k" and cs: "list_all (dict_contains info) ks"
    by simp_all
  show ?case
  proof (cases "check_expected_key info k = Inr ()")
    case True
    with Cons.prems(2) have "check_expected_keys info ks \<noteq> Inr ()"
      by (simp add: check_expected_keys_Cons)
    with Cons.IH cs have "check_expected_keys info ks = Inl AssertionError"
      by blast
    with True show ?thesis by simp
  next
    case False
    with c have "check_expected_key info k = Inl AssertionError"
      by (rule check_expected_key_fail)
    then show ?thesis by simp
  qed
qed

text \<open>
  \<open>expected_keys\<close> is a set in the source, and Python does not fix the order in which
  the loop visits it. After the subset assertion the order makes no difference to the
  result: every failure of the loop is the same \<open>AssertionError\<close>.
\<close>

lemma check_expected_keys_order:
  assumes "set ks = set ks'" and "list_all (dict_contains info) ks"
  shows "check_expected_keys info ks = check_expected_keys info ks'"
proof (cases "check_expected_keys info ks = Inr ()")
  case True
  then have "check_expected_keys info ks' = Inr ()"
    unfolding check_expected_keys_ok assms(1) .
  with True show ?thesis by simp
next
  case False
  then have "check_expected_keys info ks' \<noteq> Inr ()"
    unfolding check_expected_keys_ok assms(1) .
  moreover from assms have "list_all (dict_contains info) ks'"
    by (simp add: list_all_iff)
  ultimately have "check_expected_keys info ks' = Inl AssertionError"
    by (intro check_expected_keys_fail)
  moreover from assms(2) False have "check_expected_keys info ks = Inl AssertionError"
    by (rule check_expected_keys_fail)
  ultimately show ?thesis by simp
qed

lemma check_required_fields_unfold:
  "check_required_fields info =
     (if list_all (dict_contains info) expected_keys
      then check_expected_keys info expected_keys else Inl AssertionError)"
  by (simp add: check_required_fields_def assertTrue_def)

lemma check_required_fields_ok:
  "check_required_fields info = Inr () \<longleftrightarrow>
     (\<forall>k\<in>set expected_keys. \<exists>s. dict_lookup info k = Some (PStr s) \<and> s \<noteq> [])"
proof
  assume "check_required_fields info = Inr ()"
  then have "check_expected_keys info expected_keys = Inr ()"
    by (simp add: check_required_fields_unfold split: if_splits)
  then show "\<forall>k\<in>set expected_keys. \<exists>s. dict_lookup info k = Some (PStr s) \<and> s \<noteq> []"
    by (simp only: check_expected_keys_ok)
next
  assume r: "\<forall>k\<in>set expected_keys. \<exists>s. dict_lookup info k = Some (PStr s) \<and> s \<noteq> []"
  then have "\<forall>k\<in>set expected_keys. dict_contains info k"
    unfolding dict_contains_def by fastforce
  then have "list_all (dict_contains info) expected_keys"
    by (simp only: list_all_iff)
  moreover from r have "check_expected_keys info expected_keys = Inr ()"
    by (simp only: check_expected_keys_ok)
  ultimately show "check_required_fields info = Inr ()"
    by (simp add: check_required_fields_unfold)
qed

lemma check_required_fields_fail:
  "check_required_fields info \<noteq> Inr () \<Longrightarrow> check_required_fields info = Inl AssertionError"
  using check_expected_keys_fail [of info expected_keys]
  by (simp add: check_required_fields_unfold split: if_splits)


lemma check_entry_dict:
  "check_entry (n, PDict m) =
     (if \<not> is_str n then Inl AssertionError
      else case dict_lookup m ''value'' of
             None \<Rightarrow> Inl AssertionError
           | Some v \<Rightarrow>
               if \<not> is_str v then Inl AssertionError
               else if \<not> (truthy v \<or> truthy (dict_get m ''help'')) then Inl AssertionError
               else (case dict_lookup m ''help'' of
                       None \<Rightarrow> Inr ()
                     | Some h \<Rightarrow> if is_str h then Inr () else Inl AssertionError))"
  by (simp add: assertTrue_def dict_contains_def dict_item_def split: option.split)

lemma check_entry_not_dict:
  "\<not> is_dict md \<Longrightarrow> check_entry (n, md) = Inl AssertionError"
  by (cases md) (simp_all add: assertTrue_def)

declare check_entry.simps [simp del]

lemma check_entry_cases:
  "check_entry e = Inr () \<or> check_entry e = Inl AssertionError"
proof -
  obtain n md where e: "e = (n, md)" by (cases e)
  show ?thesis
  proof (cases md)
    case (PDict m)
    show ?thesis
      unfolding e PDict check_entry_dict by (simp split: option.split)
  qed (simp_all add: e check_entry_not_dict)
qed

lemma check_entry_fail:
  "check_entry e \<noteq> Inr () \<Longrightarrow> check_entry e = Inl AssertionError"
  using check_entry_cases [of e] by blast


lemma check_entries_Cons:
  "check_entries (e # es) = Inr () \<longleftrightarrow> check_entry e = Inr () \<and> check_entries es = Inr ()"
  by (cases "check_entry e") simp_all


lemma check_entries_fail:
  "check_entries es \<noteq> Inr () \<Longrightarrow> check_entries es = Inl AssertionError"
proof (induction es)
  case Nil
  then show ?case by simp
next
  case (Cons e es)
  show ?case
  proof (cases "check_entry e = Inr ()")
    case True
    with Cons.prems have "check_entries es \<noteq> Inr ()"
      by (simp add: check_entries_Cons)
    then have "check_entries es = Inl AssertionError" by (rule Cons.IH)
    with True show ?thesis by simp
  next
    case False
    then have "check_entry e = Inl AssertionError" by (rule check_entry_fail)
    then show ?thesis by simp
  qed
qed

lemma check_collection_unfold:
  "check_collection info c =
     (case dict_lookup info c of
        None \<Rightarrow> Inl AssertionError
      | Some v \<Rightarrow>
          (case v of
             PDict entries \<Rightarrow> if entries \<noteq> [] then check_entries entries else Inl AssertionError
           | _ \<Rightarrow> Inl AssertionError))"
  by (simp add: check_collection_def assertTrue_def dict_contains_def dict_item_def
        split: option.split pyval.split)

lemma check_collection_ok:
  "check_collection info c = Inr () \<longleftrightarrow>
     (\<exists>entries. dict_lookup info c = Some (PDict entries) \<and> entries \<noteq> [] \<and>
        check_entries entries = Inr ())"
proof (cases "dict_lookup info c")
  case None
  then show ?thesis by (simp add: check_collection_unfold)
next
  case (Some v)
  then show ?thesis by (cases v) (simp_all add: check_collection_unfold)
qed

lemma check_collection_fail:
  "check_collection info c \<noteq> Inr () \<Longrightarrow> check_collection info c = Inl AssertionError"
proof (cases "dict_lookup info c")
  case None
  then show ?thesis by (simp add: check_collection_unfold)
next
  case (Some v)
  assume a: "check_collection info c \<noteq> Inr ()"
  show ?thesis
  proof (cases v)
    case (PDict entries)
    with Some a check_entries_fail [of entries] show ?thesis
      by (simp add: check_collection_unfold split: if_splits)
  qed (simp_all add: Some check_collection_unfold)
qed

lemma check_collections_Cons:
  "check_collections info (c # cs) = Inr () \<longleftrightarrow>
     check_collection info c = Inr () \<and> check_collections info cs = Inr ()"
  by (cases "check_collection info c") simp_all

lemma check_collections_ok:
  "check_collections info cs = Inr () \<longleftrightarrow> (\<forall>c\<in>set cs. check_collection info c = Inr ())"
proof (induction cs)
  case Nil
  show ?case by simp
next
  case (Cons c cs)
  show ?case unfolding check_collections_Cons Cons.IH by simp
qed

lemma check_collections_fail:
  "check_collections info cs \<noteq> Inr () \<Longrightarrow> check_collections info cs = Inl AssertionError"
proof (induction cs)
  case Nil
  then show ?case by simp
next
  case (Cons c cs)
  show ?case
  proof (cases "check_collection info c = Inr ()")
    case True
    with Cons.prems have "check_collections info cs \<noteq> Inr ()"
      by (simp add: check_collections_Cons)
    then have "check_collections info cs = Inl AssertionError" by (rule Cons.IH)
    with True show ?thesis by simp
  next
    case False
    then have "check_collection info c = Inl AssertionError" by (rule check_collection_fail)
    then show ?thesis by simp
  qed
qed

lemma check_info_dict:
  "check_info (PDict info) =
     (if check_required_fields info = Inr ()
      then check_collections info collection_names else Inl AssertionError)"
proof (cases "check_required_fields info = Inr ()")
  case True
  then show ?thesis by (simp add: check_info_def)
next
  case False
  then have "check_required_fields info = Inl AssertionError"
    by (rule check_required_fields_fail)
  then show ?thesis by (simp add: check_info_def)
qed

lemma check_info_ok:
  "check_info v = Inr () \<longleftrightarrow>
     (\<exists>info. v = PDict info \<and> check_required_fields info = Inr () \<and>
        check_collections info collection_names = Inr ())"
  by (cases v) (simp_all add: check_info_dict, simp_all add: check_info_def)

lemma check_info_fail:
  "check_info v \<noteq> Inr () \<Longrightarrow> check_info v = Inl AssertionError"
proof (cases v)
  case (PDict info)
  assume "check_info v \<noteq> Inr ()"
  with PDict check_collections_fail [of info collection_names] show ?thesis
    by (simp add: check_info_dict split: if_splits)
qed (simp_all add: check_info_def)

section \<open>Claims about the buildinfo test\<close>

lemma test_buildinfo_unfold:
  "buildinfo m = Inr v \<Longrightarrow> test_buildinfo_reports_metadata m = check_info v"
  by (simp add: test_buildinfo_reports_metadata_def)


lemma set_collection_names:
  "set collection_names = {''build_options'', ''detected_environment''}"
  by (simp add: collection_names_def)







text \<open>
  Claim C6. \<open>test_buildinfo_reports_metadata\<close> fails with an assertion unless the
  returned mapping binds both \<open>build_options\<close> and \<open>detected_environment\<close> to a
  non-empty dict.
\<close>

theorem collections_required:
  assumes "buildinfo m = Inr (PDict info)"
    and "\<not> (\<forall>c\<in>{''build_options'', ''detected_environment''}.
              \<exists>d. dict_lookup info c = Some (PDict d) \<and> d \<noteq> [])"
  shows "test_buildinfo_reports_metadata m = Inl AssertionError"
proof -
  have t: "test_buildinfo_reports_metadata m = check_info (PDict info)"
    using assms(1) by (rule test_buildinfo_unfold)
  have "check_info (PDict info) \<noteq> Inr ()"
  proof
    assume "check_info (PDict info) = Inr ()"
    then have "check_collections info collection_names = Inr ()"
      by (simp add: check_info_ok)
    then have "\<forall>c\<in>set collection_names. check_collection info c = Inr ()"
      by (simp only: check_collections_ok)
    then have "\<forall>c\<in>{''build_options'', ''detected_environment''}.
        \<exists>d. dict_lookup info c = Some (PDict d) \<and> d \<noteq> []"
      unfolding set_collection_names check_collection_ok by blast
    with assms(2) show False ..
  qed
  then have "check_info (PDict info) = Inl AssertionError"
    by (rule check_info_fail)
  with t show ?thesis by simp
qed

theorem collections_required_witness:
  "buildinfo (sample_module\<lparr>buildinfo := Inr (PDict sample_info_no_environment)\<rparr>) =
     Inr (PDict sample_info_no_environment) \<and>
   dict_lookup sample_info_no_environment ''detected_environment'' = None \<and>
   test_buildinfo_reports_metadata
     (sample_module\<lparr>buildinfo := Inr (PDict sample_info_no_environment)\<rparr>) = Inl AssertionError"
proof -
  have b: "buildinfo (sample_module\<lparr>buildinfo := Inr (PDict sample_info_no_environment)\<rparr>) =
     Inr (PDict sample_info_no_environment)"
    by simp
  have l: "dict_lookup sample_info_no_environment ''detected_environment'' = None"
    by (simp add: dict_lookup_def sample_info_no_environment_def sample_info_def)
  then have n: "\<not> (\<forall>c\<in>{''build_options'', ''detected_environment''}.
              \<exists>d. dict_lookup sample_info_no_environment c = Some (PDict d) \<and> d \<noteq> [])"
    by simp
  note t = collections_required [OF b n]
  show ?thesis by (intro conjI; fact)
qed

lemma check_expected_keys_cong:
  "\<forall>k\<in>set ks. dict_lookup a k = dict_lookup b k \<Longrightarrow>
     check_expected_keys a ks = check_expected_keys b ks"
proof (induction ks)
  case Nil
  show ?case by simp
next
  case (Cons k ks)
  from Cons.prems have "dict_lookup a k = dict_lookup b k" by simp
  then have h: "check_expected_key a k = check_expected_key b k"
    by (simp only: check_expected_key_unfold)
  from Cons.prems have t: "check_expected_keys a ks = check_expected_keys b ks"
    by (intro Cons.IH) simp
  show ?case unfolding check_expected_keys.simps h t ..
qed

lemma list_all_contains_cong:
  "\<forall>k\<in>set ks. dict_lookup a k = dict_lookup b k \<Longrightarrow>
     list_all (dict_contains a) ks = list_all (dict_contains b) ks"
  by (induction ks) (simp_all add: dict_contains_def)

lemma check_collections_cong:
  "\<forall>c\<in>set cs. dict_lookup a c = dict_lookup b c \<Longrightarrow>
     check_collections a cs = check_collections b cs"
proof (induction cs)
  case Nil
  show ?case by simp
next
  case (Cons c cs)
  from Cons.prems have "dict_lookup a c = dict_lookup b c" by simp
  then have h: "check_collection a c = check_collection b c"
    by (simp only: check_collection_unfold)
  from Cons.prems have t: "check_collections a cs = check_collections b cs"
    by (intro Cons.IH) simp
  show ?case unfolding check_collections.simps h t ..
qed

lemma check_info_cong:
  assumes "\<forall>k\<in>set expected_keys \<union> set collection_names. dict_lookup a k = dict_lookup b k"
  shows "check_info (PDict a) = check_info (PDict b)"
proof -
  from assms have e: "\<forall>k\<in>set expected_keys. dict_lookup a k = dict_lookup b k"
    and c: "\<forall>k\<in>set collection_names. dict_lookup a k = dict_lookup b k"
    by blast+
  have "check_required_fields a = check_required_fields b"
    unfolding check_required_fields_unfold
    by (simp only: check_expected_keys_cong [OF e] list_all_contains_cong [OF e])
  moreover have "check_collections a collection_names = check_collections b collection_names"
    using c by (rule check_collections_cong)
  ultimately show ?thesis by (simp add: check_info_dict)
qed

lemma check_info_present:
  assumes "check_info (PDict a) = Inr ()"
    and "k \<in> set expected_keys \<union> set collection_names"
  shows "dict_lookup a k \<noteq> None"
proof -
  from assms(1) have r: "check_required_fields a = Inr ()"
    and c: "check_collections a collection_names = Inr ()"
    by (simp_all add: check_info_ok)
  from assms(2) show ?thesis
  proof
    assume "k \<in> set expected_keys"
    with r show ?thesis by (auto simp only: check_required_fields_ok)
  next
    assume "k \<in> set collection_names"
    with c have "check_collection a k = Inr ()" by (simp add: check_collections_ok)
    then show ?thesis by (auto simp only: check_collection_ok)
  qed
qed

lemma dict_lookup_append_present:
  "dict_lookup a k \<noteq> None \<Longrightarrow> dict_lookup (a @ extra) k = dict_lookup a k"
  by (auto simp: dict_lookup_def map_add_def split: option.splits)

text \<open>
  Claim C7. The verdict of the buildinfo test depends only on what the mapping binds
  to the eight required keys and to \<open>build_options\<close> and \<open>detected_environment\<close>: two
  mappings that agree there get the same verdict. In particular a mapping that passes
  still passes after further keys are added to it.
\<close>

theorem verdict_depends_on_required_keys:
  "(buildinfo m1 = Inr (PDict a) \<and> buildinfo m2 = Inr (PDict b) \<and>
    (\<forall>k\<in>set expected_keys \<union> set collection_names. dict_lookup a k = dict_lookup b k)
      \<longrightarrow> test_buildinfo_reports_metadata m1 = test_buildinfo_reports_metadata m2) \<and>
   (buildinfo m1 = Inr (PDict a) \<and> test_buildinfo_reports_metadata m1 = Inr () \<and>
    buildinfo m2 = Inr (PDict (a @ extra)) \<and> (\<forall>key\<in>fst ` set extra. map_of a key = None)
      \<longrightarrow> test_buildinfo_reports_metadata m2 = Inr ())"
proof (intro conjI impI)
  assume h: "buildinfo m1 = Inr (PDict a) \<and> buildinfo m2 = Inr (PDict b) \<and>
    (\<forall>k\<in>set expected_keys \<union> set collection_names. dict_lookup a k = dict_lookup b k)"
  then have b1: "buildinfo m1 = Inr (PDict a)" and b2: "buildinfo m2 = Inr (PDict b)"
    by simp_all
  from h have "check_info (PDict a) = check_info (PDict b)"
    by (intro check_info_cong) simp
  then show "test_buildinfo_reports_metadata m1 = test_buildinfo_reports_metadata m2"
    by (simp only: test_buildinfo_unfold [OF b1] test_buildinfo_unfold [OF b2])
next
  assume h: "buildinfo m1 = Inr (PDict a) \<and> test_buildinfo_reports_metadata m1 = Inr () \<and>
    buildinfo m2 = Inr (PDict (a @ extra)) \<and> (\<forall>key\<in>fst ` set extra. map_of a key = None)"
  then have b1: "buildinfo m1 = Inr (PDict a)" and b2: "buildinfo m2 = Inr (PDict (a @ extra))"
    and t: "test_buildinfo_reports_metadata m1 = Inr ()"
    by simp_all
  from t have p: "check_info (PDict a) = Inr ()"
    by (simp only: test_buildinfo_unfold [OF b1])
  have "\<forall>k\<in>set expected_keys \<union> set collection_names.
      dict_lookup (a @ extra) k = dict_lookup a k"
    using check_info_present [OF p] dict_lookup_append_present by blast
  then have "check_info (PDict (a @ extra)) = check_info (PDict a)"
    by (rule check_info_cong)
  with p show "test_buildinfo_reports_metadata m2 = Inr ()"
    by (simp only: test_buildinfo_unfold [OF b2])
qed

theorem verdict_depends_on_required_keys_witness:
  "buildinfo sample_module = Inr (PDict sample_info) \<and>
   test_buildinfo_reports_metadata sample_module = Inr () \<and>
   buildinfo (sample_module\<lparr>buildinfo := Inr (PDict sample_info_extra)\<rparr>) =
     Inr (PDict (sample_info @ [(PStr ''git_revision'', PStr ''0a1b2c3'')])) \<and>
   map_of sample_info (PStr ''git_revision'') = None \<and>
   test_buildinfo_reports_metadata
     (sample_module\<lparr>buildinfo := Inr (PDict sample_info_extra)\<rparr>) = Inr () \<and>
   dict_lookup sample_info ''build_type'' = dict_lookup sample_info_extra ''build_type'' \<and>
   test_buildinfo_reports_metadata sample_module =
     test_buildinfo_reports_metadata
       (sample_module\<lparr>buildinfo := Inr (PDict sample_info_extra)\<rparr>)"
proof -
  have b1: "buildinfo sample_module = Inr (PDict sample_info)"
    by (simp add: sample_module_def)
  have b2: "buildinfo (sample_module\<lparr>buildinfo := Inr (PDict sample_info_extra)\<rparr>) =
     Inr (PDict (sample_info @ [(PStr ''git_revision'', PStr ''0a1b2c3'')]))"
    by (simp add: sample_info_extra_def)
  have r: "check_required_fields sample_info = Inr ()"
    by (simp add: check_required_fields_unfold expected_keys_def dict_contains_def
          dict_lookup_def sample_info_def check_expected_key_unfold)
  have o: "check_collection sample_info ''build_options'' = Inr ()"
    by (simp add: check_collection_unfold dict_lookup_def sample_info_def sample_options_def
          check_entry_dict dict_get_def)
  have e: "check_collection sample_info ''detected_environment'' = Inr ()"
    by (simp add: check_collection_unfold dict_lookup_def sample_info_def
          sample_environment_def check_entry_dict dict_get_def)
  have t: "test_buildinfo_reports_metadata sample_module = Inr ()"
    unfolding test_buildinfo_unfold [OF b1] check_info_dict
    by (simp add: r o e collection_names_def)
  have n: "\<forall>key\<in>fst ` set [(PStr ''git_revision'', PStr ''0a1b2c3'')].
      map_of sample_info key = None"
    by (simp add: sample_info_def)
  have p: "buildinfo sample_module = Inr (PDict sample_info) \<and>
      test_buildinfo_reports_metadata sample_module = Inr () \<and>
      buildinfo (sample_module\<lparr>buildinfo := Inr (PDict sample_info_extra)\<rparr>) =
        Inr (PDict (sample_info @ [(PStr ''git_revision'', PStr ''0a1b2c3'')])) \<and>
      (\<forall>key\<in>fst ` set [(PStr ''git_revision'', PStr ''0a1b2c3'')].
         map_of sample_info key = None)"
    by (intro conjI; fact)
  note q = verdict_depends_on_required_keys [THEN conjunct2, THEN mp, OF p]
  have b3: "buildinfo (sample_module\<lparr>buildinfo := Inr (PDict sample_info_extra)\<rparr>) =
     Inr (PDict sample_info_extra)"
    by simp
  have a: "\<forall>k\<in>set expected_keys \<union> set collection_names.
      dict_lookup sample_info k = dict_lookup sample_info_extra k"
    by (simp add: expected_keys_def collection_names_def dict_lookup_def sample_info_def
          sample_info_extra_def)
  have p': "buildinfo sample_module = Inr (PDict sample_info) \<and>
      buildinfo (sample_module\<lparr>buildinfo := Inr (PDict sample_info_extra)\<rparr>) =
        Inr (PDict sample_info_extra) \<and>
      (\<forall>k\<in>set expected_keys \<union> set collection_names.
         dict_lookup sample_info k = dict_lookup sample_info_extra k)"
    by (intro conjI; fact)
  note q' = verdict_depends_on_required_keys [THEN conjunct1, THEN mp, OF p']
  have n': "map_of sample_info (PStr ''git_revision'') = None"
    using n by simp
  have a': "dict_lookup sample_info ''build_type'' = dict_lookup sample_info_extra ''build_type''"
    using a by (rule bspec) (simp add: expected_keys_def)
  show ?thesis by (intro conjI; fact)
qed

section \<open>Claims about the greet test\<close>

text \<open>
  Claim C3. When \<open>greet()\<close> returns a value, the smoke test passes if and only if that
  value is the string \<open>Hello from uni20!\<close>; any other returned value makes
  \<open>test_greet_returns_expected_message\<close> fail with an assertion.
\<close>

theorem greet_test_passes_iff:
  assumes "greet m = Inr v"
  shows "(test_greet_returns_expected_message m = Inr () \<longleftrightarrow> v = PStr ''Hello from uni20!'') \<and>
         (v \<noteq> PStr ''Hello from uni20!'' \<longrightarrow>
            test_greet_returns_expected_message m = Inl AssertionError)"
proof -
  have t: "test_greet_returns_expected_message m =
      assertTrue (equals_str v ''Hello from uni20!'')"
    using assms by (simp add: test_greet_returns_expected_message_def)
  have e: "equals_str v ''Hello from uni20!'' \<longleftrightarrow> v = PStr ''Hello from uni20!''"
    by (cases v) simp_all
  show ?thesis unfolding t e by (simp add: assertTrue_def)
qed

theorem greet_test_passes_iff_witness:
  "greet sample_module = Inr (PStr ''Hello from uni20!'') \<and>
   test_greet_returns_expected_message sample_module = Inr () \<and>
   greet (sample_module\<lparr>greet := Inr (PStr ''Hello from uni20'')\<rparr>) =
     Inr (PStr ''Hello from uni20'') \<and>
   PStr ''Hello from uni20'' \<noteq> PStr ''Hello from uni20!'' \<and>
   test_greet_returns_expected_message (sample_module\<lparr>greet := Inr (PStr ''Hello from uni20'')\<rparr>) =
     Inl AssertionError"
proof -
  have g1: "greet sample_module = Inr (PStr ''Hello from uni20!'')"
    by (simp add: sample_module_def)
  have g2: "greet (sample_module\<lparr>greet := Inr (PStr ''Hello from uni20'')\<rparr>) =
     Inr (PStr ''Hello from uni20'')"
    by simp
  have n: "PStr ''Hello from uni20'' \<noteq> PStr ''Hello from uni20!''"
    by simp
  note a = greet_test_passes_iff [OF g1, THEN conjunct1, THEN iffD2, OF refl]
  note b = greet_test_passes_iff [OF g2, THEN conjunct2, THEN mp, OF n]
  show ?thesis by (intro conjI; fact)
qed

section \<open>Loading the binding module, unfolded\<close>

lemma test_buildinfo_load_module_skip:
  "length (argv s) < 2 \<Longrightarrow> test_buildinfo_load_module w s = (Inl SkipTest, s)"
  by (simp add: test_buildinfo_load_module_def)

lemma test_greet_load_module_skip:
  "length (argv s) < 2 \<Longrightarrow> test_greet_load_module w s = (Inl SkipTest, s)"
  by (simp add: test_greet_load_module_def)

lemma test_buildinfo_load_module_raise:
  "2 \<le> length (argv s) \<Longrightarrow> resolve w (argv s ! 1) = Inl e \<Longrightarrow>
     test_buildinfo_load_module w s = (Inl e, s)"
  by (simp add: test_buildinfo_load_module_def)

lemma test_greet_load_module_raise:
  "2 \<le> length (argv s) \<Longrightarrow> resolve w (argv s ! 1) = Inl e \<Longrightarrow>
     test_greet_load_module w s = (Inl e, s)"
  by (simp add: test_greet_load_module_def)

lemma test_buildinfo_load_module_run:
  "2 \<le> length (argv s) \<Longrightarrow> resolve w (argv s ! 1) = Inr dir \<Longrightarrow>
     test_buildinfo_load_module w s =
       (import_module w (dir # sys_path s) ''uni20'',
        s\<lparr>argv := [argv s ! 0],
          sys_path := dir # sys_path s,
          import_log := import_log s @ [(''uni20'', dir # sys_path s)]\<rparr>)"
  by (simp add: test_buildinfo_load_module_def py_import_def Let_def)

lemma test_greet_load_module_run:
  "2 \<le> length (argv s) \<Longrightarrow> resolve w (argv s ! 1) = Inr dir \<Longrightarrow>
     test_greet_load_module w s =
       (import_module w (dir # sys_path s) ''uni20_python'',
        s\<lparr>argv := [argv s ! 0],
          sys_path := dir # sys_path s,
          import_log := import_log s @ [(''uni20_python'', dir # sys_path s)]\<rparr>)"
  by (simp add: test_greet_load_module_def py_import_def Let_def)

lemma main_raise:
  "1 < length (argv s) \<Longrightarrow> resolve w (argv s ! 1) = Inl e \<Longrightarrow> main w s = (Inl e, s)"
  by (simp add: main_def)

text \<open>
  The example once the search path is settled: \<open>search\<close> is \<open>sys.path\<close> as the import
  finds it, with the resolved directory in front when one was given.
\<close>

lemma main_run:
  assumes "1 < length (argv s) \<longrightarrow> resolve w (argv s ! 1) = Inr dir"
    and "search = (if 1 < length (argv s) then dir # sys_path s else sys_path s)"
  shows "main w s =
     (case import_module w search ''uni20'' of
        Inl e \<Rightarrow>
          (Inl e, s\<lparr>sys_path := search, import_log := import_log s @ [(''uni20'', search)]\<rparr>)
      | Inr m \<Rightarrow>
          (case buildinfo m of
             Inl e \<Rightarrow>
               (Inl e,
                s\<lparr>sys_path := search, import_log := import_log s @ [(''uni20'', search)]\<rparr>)
           | Inr v \<Rightarrow>
               (Inr (),
                s\<lparr>sys_path := search, stdout := stdout s @ [pformat w v],
                  import_log := import_log s @ [(''uni20'', search)]\<rparr>)))"
proof (cases "1 < length (argv s)")
  case True
  with assms have "resolve w (argv s ! 1) = Inr dir" and "search = dir # sys_path s"
    by simp_all
  with True show ?thesis
    by (simp add: main_def py_import_def split: sum.split)
next
  case False
  with assms have "search = sys_path s" by simp
  with False show ?thesis
    by (simp add: main_def py_import_def split: sum.split)
qed

section \<open>Claims about loading the binding module\<close>

text \<open>
  Claim C4. With fewer than two command-line arguments, \<open>_load_module\<close> of either
  test file raises \<open>SkipTest\<close> before it resolves or imports anything, and leaves the
  state as it was; an import is made only when the directory argument is present. The
  files call \<open>_load_module\<close> at the module level (line 23). Run as a program, the
  \<open>SkipTest\<close> therefore leaves the module level uncaught and \<open>unittest.main()\<close> is not
  reached: the run ends with a traceback, and no test is reported as skipped.
\<close>

theorem skip_test_raised_at_module_level:
  "(length (argv s) < 2 \<longrightarrow>
      test_buildinfo_load_module w s = (Inl SkipTest, s) \<and>
      test_greet_load_module w s = (Inl SkipTest, s) \<and>
      test_buildinfo_script w s = (Uncaught SkipTest, s) \<and>
      test_greet_script w s = (Uncaught SkipTest, s)) \<and>
   (import_log (snd (test_buildinfo_load_module w s)) \<noteq> import_log s \<longrightarrow>
      2 \<le> length (argv s)) \<and>
   (import_log (snd (test_greet_load_module w s)) \<noteq> import_log s \<longrightarrow>
      2 \<le> length (argv s))"
proof (intro conjI impI)
  assume a: "length (argv s) < 2"
  show "test_buildinfo_load_module w s = (Inl SkipTest, s)"
    using a by (rule test_buildinfo_load_module_skip)
  show "test_greet_load_module w s = (Inl SkipTest, s)"
    using a by (rule test_greet_load_module_skip)
  show "test_buildinfo_script w s = (Uncaught SkipTest, s)"
    by (simp add: test_buildinfo_script_def test_buildinfo_load_module_skip [OF a])
  show "test_greet_script w s = (Uncaught SkipTest, s)"
    by (simp add: test_greet_script_def test_greet_load_module_skip [OF a])
next
  assume "import_log (snd (test_buildinfo_load_module w s)) \<noteq> import_log s"
  then have "\<not> length (argv s) < 2"
    using test_buildinfo_load_module_skip [of s w] by auto
  then show "2 \<le> length (argv s)" by simp
next
  assume "import_log (snd (test_greet_load_module w s)) \<noteq> import_log s"
  then have "\<not> length (argv s) < 2"
    using test_greet_load_module_skip [of s w] by auto
  then show "2 \<le> length (argv s)" by simp
qed

theorem skip_test_raised_at_module_level_witness:
  "length (argv sample_state_no_dir) < 2 \<and>
   test_buildinfo_load_module sample_world sample_state_no_dir =
     (Inl SkipTest, sample_state_no_dir) \<and>
   test_greet_load_module sample_world sample_state_no_dir =
     (Inl SkipTest, sample_state_no_dir) \<and>
   test_buildinfo_script sample_world sample_state_no_dir =
     (Uncaught SkipTest, sample_state_no_dir) \<and>
   test_greet_script sample_world sample_state_no_dir =
     (Uncaught SkipTest, sample_state_no_dir) \<and>
   import_log (snd (test_buildinfo_load_module sample_world sample_state)) \<noteq>
     import_log sample_state \<and>
   import_log (snd (test_greet_load_module sample_world sample_state)) \<noteq>
     import_log sample_state \<and>
   2 \<le> length (argv sample_state)"
proof -
  have a: "length (argv sample_state_no_dir) < 2"
    by (simp add: sample_state_no_dir_def sample_state_def)
  have b: "import_log (snd (test_buildinfo_load_module sample_world sample_state)) \<noteq>
     import_log sample_state"
    by (simp add: test_buildinfo_load_module_def py_import_def sample_state_def
          sample_world_def Let_def)
  have g: "import_log (snd (test_greet_load_module sample_world sample_state)) \<noteq>
     import_log sample_state"
    by (simp add: test_greet_load_module_def py_import_def sample_state_def
          sample_world_def Let_def)
  note s = skip_test_raised_at_module_level
    [of sample_state_no_dir sample_world, THEN conjunct1, THEN mp, OF a]
  note l = skip_test_raised_at_module_level
    [of sample_state sample_world, THEN conjunct2, THEN conjunct1, THEN mp, OF b]
  note l' = skip_test_raised_at_module_level
    [of sample_state sample_world, THEN conjunct2, THEN conjunct2, THEN mp, OF g]
  from a s b g l l' show ?thesis by simp
qed

text \<open>
  Claim C5. When a bindings directory argument is given and \<open>Path.resolve\<close> returns
  \<open>dir\<close> for it, the example and both test files put \<open>dir\<close> at position 0 of
  \<open>sys.path\<close>, and the import of the binding module is made with that search path:
  the insertion comes before the import. When \<open>Path.resolve\<close> raises instead, the
  exception leaves the function with nothing inserted and nothing imported.
\<close>

theorem directory_prepended_before_import:
  assumes "1 < length (argv s)"
  shows "case resolve w (argv s ! 1) of
           Inr dir \<Rightarrow>
             sys_path (snd (test_buildinfo_load_module w s)) = dir # sys_path s \<and>
             fst (test_buildinfo_load_module w s) =
               import_module w (dir # sys_path s) ''uni20'' \<and>
             import_log (snd (test_buildinfo_load_module w s)) =
               import_log s @ [(''uni20'', dir # sys_path s)] \<and>
             sys_path (snd (test_greet_load_module w s)) = dir # sys_path s \<and>
             fst (test_greet_load_module w s) =
               import_module w (dir # sys_path s) ''uni20_python'' \<and>
             import_log (snd (test_greet_load_module w s)) =
               import_log s @ [(''uni20_python'', dir # sys_path s)] \<and>
             sys_path (snd (main w s)) = dir # sys_path s \<and>
             fst (main w s) =
               (case import_module w (dir # sys_path s) ''uni20'' of
                  Inl e \<Rightarrow> Inl e
                | Inr m \<Rightarrow> (case buildinfo m of Inl e \<Rightarrow> Inl e | Inr v \<Rightarrow> Inr ())) \<and>
             import_log (snd (main w s)) = import_log s @ [(''uni20'', dir # sys_path s)]
         | Inl e \<Rightarrow>
             test_buildinfo_load_module w s = (Inl e, s) \<and>
             test_greet_load_module w s = (Inl e, s) \<and>
             main w s = (Inl e, s)"
proof (cases "resolve w (argv s ! 1)")
  case (Inl e)
  from assms have a: "2 \<le> length (argv s)" by simp
  show ?thesis
    unfolding Inl
    by (simp add: test_buildinfo_load_module_raise [OF a Inl]
          test_greet_load_module_raise [OF a Inl] main_raise [OF assms Inl])
next
  case (Inr dir)
  from assms have a: "2 \<le> length (argv s)" by simp
  have m: "1 < length (argv s) \<longrightarrow> resolve w (argv s ! 1) = Inr dir"
    using Inr by simp
  have p: "dir # sys_path s = (if 1 < length (argv s) then dir # sys_path s else sys_path s)"
    using assms by simp
  show ?thesis
    unfolding Inr
    by (simp add: test_buildinfo_load_module_run [OF a Inr]
          test_greet_load_module_run [OF a Inr] main_run [OF m p] split: sum.split)
qed

theorem directory_prepended_before_import_witness:
  "1 < length (argv sample_state) \<and>
   resolve sample_world (argv sample_state ! 1) = Inr ''/work/build'' \<and>
   sys_path (snd (test_buildinfo_load_module sample_world sample_state)) =
     [''/work/build'', ''/usr/lib/python3''] \<and>
   fst (test_buildinfo_load_module sample_world sample_state) = Inr sample_module \<and>
   import_log (snd (test_greet_load_module sample_world sample_state)) =
     [(''uni20_python'', [''/work/build'', ''/usr/lib/python3''])] \<and>
   sys_path (snd (main sample_world sample_state)) = [''/work/build'', ''/usr/lib/python3''] \<and>
   resolve sample_world_no_cwd (argv sample_state ! 1) = Inl OSError \<and>
   test_greet_load_module sample_world_no_cwd sample_state = (Inl OSError, sample_state) \<and>
   main sample_world_no_cwd sample_state = (Inl OSError, sample_state)"
proof -
  have a: "1 < length (argv sample_state)"
    by (simp add: sample_state_def)
  have r: "resolve sample_world (argv sample_state ! 1) = Inr ''/work/build''"
    by (simp add: sample_state_def sample_world_def)
  have r': "resolve sample_world_no_cwd (argv sample_state ! 1) = Inl OSError"
    by (simp add: sample_world_no_cwd_def)
  note t = directory_prepended_before_import [OF a, of sample_world, unfolded r sum.case]
  note t' = directory_prepended_before_import
    [OF a, of sample_world_no_cwd, unfolded r' sum.case]
  from a r r' t t' show ?thesis
    by (simp add: sample_state_def sample_world_def)
qed

text \<open>
  Claim C10. Each test file uses the first command-line argument only. The arguments
  after \<open>argv[1]\<close> change neither what \<open>_load_module\<close> returns or raises nor the
  search path it leaves: the directory injected is the one resolved from \<open>argv[1]\<close>.
  Once \<open>argv[1]\<close> is resolved, \<open>sys.argv\<close> is set to \<open>[argv[0]]\<close>, before the import,
  so whenever \<open>_load_module\<close> has loaded the module, \<open>sys.argv\<close> is \<open>[argv[0]]\<close> and
  the further arguments have left no trace in the state.
\<close>

theorem load_module_uses_first_argument_only:
  "fst (test_buildinfo_load_module w (s\<lparr>argv := prog # dir # rest\<rparr>)) =
     fst (test_buildinfo_load_module w (s\<lparr>argv := [prog, dir]\<rparr>)) \<and>
   sys_path (snd (test_buildinfo_load_module w (s\<lparr>argv := prog # dir # rest\<rparr>))) =
     (case resolve w dir of Inl e \<Rightarrow> sys_path s | Inr d \<Rightarrow> d # sys_path s) \<and>
   (resolve w dir = Inr d \<longrightarrow>
      test_buildinfo_load_module w (s\<lparr>argv := prog # dir # rest\<rparr>) =
        test_buildinfo_load_module w (s\<lparr>argv := [prog, dir]\<rparr>) \<and>
      argv (snd (test_buildinfo_load_module w (s\<lparr>argv := prog # dir # rest\<rparr>))) = [prog]) \<and>
   (fst (test_buildinfo_load_module w s) = Inr m \<longrightarrow>
      argv (snd (test_buildinfo_load_module w s)) = [argv s ! 0]) \<and>
   fst (test_greet_load_module w (s\<lparr>argv := prog # dir # rest\<rparr>)) =
     fst (test_greet_load_module w (s\<lparr>argv := [prog, dir]\<rparr>)) \<and>
   sys_path (snd (test_greet_load_module w (s\<lparr>argv := prog # dir # rest\<rparr>))) =
     (case resolve w dir of Inl e \<Rightarrow> sys_path s | Inr d \<Rightarrow> d # sys_path s) \<and>
   (resolve w dir = Inr d \<longrightarrow>
      test_greet_load_module w (s\<lparr>argv := prog # dir # rest\<rparr>) =
        test_greet_load_module w (s\<lparr>argv := [prog, dir]\<rparr>) \<and>
      argv (snd (test_greet_load_module w (s\<lparr>argv := prog # dir # rest\<rparr>))) = [prog]) \<and>
   (fst (test_greet_load_module w s) = Inr m \<longrightarrow>
      argv (snd (test_greet_load_module w s)) = [argv s ! 0])"
proof -
  have b: "fst (test_buildinfo_load_module w s) = Inr m \<longrightarrow>
      argv (snd (test_buildinfo_load_module w s)) = [argv s ! 0]"
    by (simp add: test_buildinfo_load_module_def py_import_def Let_def split: sum.split)
  have g: "fst (test_greet_load_module w s) = Inr m \<longrightarrow>
      argv (snd (test_greet_load_module w s)) = [argv s ! 0]"
    by (simp add: test_greet_load_module_def py_import_def Let_def split: sum.split)
  have r: "fst (test_buildinfo_load_module w (s\<lparr>argv := prog # dir # rest\<rparr>)) =
       fst (test_buildinfo_load_module w (s\<lparr>argv := [prog, dir]\<rparr>)) \<and>
     sys_path (snd (test_buildinfo_load_module w (s\<lparr>argv := prog # dir # rest\<rparr>))) =
       (case resolve w dir of Inl e \<Rightarrow> sys_path s | Inr d \<Rightarrow> d # sys_path s) \<and>
     (resolve w dir = Inr d \<longrightarrow>
        test_buildinfo_load_module w (s\<lparr>argv := prog # dir # rest\<rparr>) =
          test_buildinfo_load_module w (s\<lparr>argv := [prog, dir]\<rparr>) \<and>
        argv (snd (test_buildinfo_load_module w (s\<lparr>argv := prog # dir # rest\<rparr>))) = [prog])"
    by (simp add: test_buildinfo_load_module_def py_import_def Let_def split: sum.split)
  have r': "fst (test_greet_load_module w (s\<lparr>argv := prog # dir # rest\<rparr>)) =
       fst (test_greet_load_module w (s\<lparr>argv := [prog, dir]\<rparr>)) \<and>
     sys_path (snd (test_greet_load_module w (s\<lparr>argv := prog # dir # rest\<rparr>))) =
       (case resolve w dir of Inl e \<Rightarrow> sys_path s | Inr d \<Rightarrow> d # sys_path s) \<and>
     (resolve w dir = Inr d \<longrightarrow>
        test_greet_load_module w (s\<lparr>argv := prog # dir # rest\<rparr>) =
          test_greet_load_module w (s\<lparr>argv := [prog, dir]\<rparr>) \<and>
        argv (snd (test_greet_load_module w (s\<lparr>argv := prog # dir # rest\<rparr>))) = [prog])"
    by (simp add: test_greet_load_module_def py_import_def Let_def split: sum.split)
  from r b r' g show ?thesis by (elim conjE) (intro conjI; assumption)
qed

theorem load_module_uses_first_argument_only_witness:
  "resolve sample_world ''build'' = Inr ''/work/build'' \<and>
   test_buildinfo_load_module sample_world sample_state =
     test_buildinfo_load_module sample_world (sample_state\<lparr>argv := [''test.py'', ''build'']\<rparr>) \<and>
   argv (snd (test_buildinfo_load_module sample_world sample_state)) = [''test.py''] \<and>
   sys_path (snd (test_greet_load_module sample_world sample_state)) =
     [''/work/build'', ''/usr/lib/python3''] \<and>
   fst (test_greet_load_module sample_world sample_state) = Inr sample_greet_module \<and>
   argv (snd (test_greet_load_module sample_world sample_state)) = [argv sample_state ! 0]"
proof -
  have s: "sample_state = sample_state\<lparr>argv := ''test.py'' # ''build'' # [''-v'']\<rparr>"
    by (simp add: sample_state_def)
  have r: "resolve sample_world ''build'' = Inr ''/work/build''"
    by (simp add: sample_world_def)
  have p: "''/work/build'' # sys_path sample_state = [''/work/build'', ''/usr/lib/python3'']"
    by (simp add: sample_state_def)
  have l: "fst (test_greet_load_module sample_world sample_state) = Inr sample_greet_module"
    by (simp add: test_greet_load_module_def py_import_def Let_def sample_state_def
          sample_world_def)
  note t = load_module_uses_first_argument_only
    [where w = sample_world and s = sample_state and prog = "''test.py''"
       and dir = "''build''" and rest = "[''-v'']" and d = "''/work/build''"
       and m = sample_greet_module, folded s, unfolded r sum.case p]
  from t have "Inr ''/work/build'' = (Inr ''/work/build'' :: error + string) \<longrightarrow>
      test_buildinfo_load_module sample_world sample_state =
        test_buildinfo_load_module sample_world
          (sample_state\<lparr>argv := [''test.py'', ''build'']\<rparr>) \<and>
      argv (snd (test_buildinfo_load_module sample_world sample_state)) = [''test.py'']"
    by (elim conjE) assumption
  then have e: "test_buildinfo_load_module sample_world sample_state =
      test_buildinfo_load_module sample_world (sample_state\<lparr>argv := [''test.py'', ''build'']\<rparr>) \<and>
    argv (snd (test_buildinfo_load_module sample_world sample_state)) = [''test.py'']"
    by (rule mp) (rule refl)
  from t have q: "sys_path (snd (test_greet_load_module sample_world sample_state)) =
     [''/work/build'', ''/usr/lib/python3'']"
    by (elim conjE) assumption
  from t have "fst (test_greet_load_module sample_world sample_state) = Inr sample_greet_module
      \<longrightarrow> argv (snd (test_greet_load_module sample_world sample_state)) =
        [argv sample_state ! 0]"
    by (elim conjE) assumption
  from this l have u: "argv (snd (test_greet_load_module sample_world sample_state)) =
     [argv sample_state ! 0]"
    by (rule mp)
  from r e q l u show ?thesis by (elim conjE) (intro conjI; assumption)
qed

text \<open>
  Claim C9. The example imports the binding module and prints what \<open>buildinfo()\<close>
  returned, as \<open>pprint.pp\<close> formats it, whatever that value is: nothing is checked
  before printing. Its only argument is the optional directory; the example reads no
  flag, and leaves \<open>sys.argv\<close> as it found it.
\<close>

theorem example_prints_buildinfo:
  assumes "1 < length (argv s) \<longrightarrow> resolve w (argv s ! 1) = Inr dir"
    and "import_module w (if 1 < length (argv s) then dir # sys_path s else sys_path s)
           ''uni20'' = Inr m"
    and "buildinfo m = Inr v"
  shows "fst (main w s) = Inr () \<and>
         stdout (snd (main w s)) = stdout s @ [pformat w v] \<and>
         argv (snd (main w s)) = argv s"
  unfolding main_run [OF assms(1) refl] using assms(2,3) by simp

theorem example_prints_buildinfo_witness:
  "resolve (sample_world\<lparr>import_module :=
       \<lambda>path name. Inr (sample_module\<lparr>buildinfo := Inr (PInt 7)\<rparr>)\<rparr>)
     (argv sample_state ! 1) = Inr ''/work/build'' \<and>
   import_module (sample_world\<lparr>import_module :=
       \<lambda>path name. Inr (sample_module\<lparr>buildinfo := Inr (PInt 7)\<rparr>)\<rparr>)
     (if 1 < length (argv sample_state)
      then ''/work/build'' # sys_path sample_state
      else sys_path sample_state) ''uni20'' =
     Inr (sample_module\<lparr>buildinfo := Inr (PInt 7)\<rparr>) \<and>
   buildinfo (sample_module\<lparr>buildinfo := Inr (PInt 7)\<rparr>) = Inr (PInt 7) \<and>
   check_info (PInt 7) = Inl AssertionError \<and>
   fst (main (sample_world\<lparr>import_module :=
       \<lambda>path name. Inr (sample_module\<lparr>buildinfo := Inr (PInt 7)\<rparr>)\<rparr>) sample_state) = Inr () \<and>
   stdout (snd (main (sample_world\<lparr>import_module :=
       \<lambda>path name. Inr (sample_module\<lparr>buildinfo := Inr (PInt 7)\<rparr>)\<rparr>) sample_state)) =
     [''{...}'']"
proof -
  have r: "resolve (sample_world\<lparr>import_module :=
       \<lambda>path name. Inr (sample_module\<lparr>buildinfo := Inr (PInt 7)\<rparr>)\<rparr>)
     (argv sample_state ! 1) = Inr ''/work/build''"
    by (simp add: sample_world_def sample_state_def)
  then have r': "1 < length (argv sample_state) \<longrightarrow>
     resolve (sample_world\<lparr>import_module :=
       \<lambda>path name. Inr (sample_module\<lparr>buildinfo := Inr (PInt 7)\<rparr>)\<rparr>)
     (argv sample_state ! 1) = Inr ''/work/build''"
    by simp
  have i: "import_module (sample_world\<lparr>import_module :=
       \<lambda>path name. Inr (sample_module\<lparr>buildinfo := Inr (PInt 7)\<rparr>)\<rparr>)
     (if 1 < length (argv sample_state)
      then ''/work/build'' # sys_path sample_state
      else sys_path sample_state) ''uni20'' =
     Inr (sample_module\<lparr>buildinfo := Inr (PInt 7)\<rparr>)"
    by simp
  have b: "buildinfo (sample_module\<lparr>buildinfo := Inr (PInt 7)\<rparr>) = Inr (PInt 7)"
    by simp
  have c: "check_info (PInt 7) = Inl AssertionError"
    by (simp add: check_info_def)
  from r i b c example_prints_buildinfo [OF r' i b]
  show ?thesis by (simp add: sample_state_def sample_world_def)
qed

text \<open>
  Claim C8, as the code has it. The two consumers of \<open>buildinfo\<close>, the example and
  \<open>test_buildinfo.py\<close>, import the module named \<open>uni20\<close> and call the \<open>buildinfo\<close>
  entry point of the module that import returned; the consumer of \<open>greet\<close>,
  \<open>test_greet.py\<close>, imports a module named \<open>uni20_python\<close>, which is another name,
  and calls the \<open>greet\<close> entry point of that module.
\<close>

theorem imported_module_names:
  "(2 \<le> length (argv s) \<and> resolve w (argv s ! 1) = Inr dir \<longrightarrow>
      fst (test_buildinfo_script w s) =
        (case import_module w (dir # sys_path s) ''uni20'' of
           Inl e \<Rightarrow> Uncaught e
         | Inr m \<Rightarrow>
             UnittestMain (case buildinfo m of Inl e \<Rightarrow> Inl e | Inr v \<Rightarrow> check_info v)) \<and>
      fst (test_greet_script w s) =
        (case import_module w (dir # sys_path s) ''uni20_python'' of
           Inl e \<Rightarrow> Uncaught e
         | Inr m \<Rightarrow>
             UnittestMain
               (case greet m of
                  Inl e \<Rightarrow> Inl e
                | Inr v \<Rightarrow> assertTrue (equals_str v ''Hello from uni20!''))) \<and>
      map fst (import_log (snd (test_buildinfo_script w s))) =
        map fst (import_log s) @ [''uni20''] \<and>
      map fst (import_log (snd (test_greet_script w s))) =
        map fst (import_log s) @ [''uni20_python'']) \<and>
   ((1 < length (argv s) \<longrightarrow> resolve w (argv s ! 1) = Inr dir) \<longrightarrow>
      fst (main w s) =
        (case import_module w
                (if 1 < length (argv s) then dir # sys_path s else sys_path s) ''uni20'' of
           Inl e \<Rightarrow> Inl e
         | Inr m \<Rightarrow> (case buildinfo m of Inl e \<Rightarrow> Inl e | Inr v \<Rightarrow> Inr ())) \<and>
      stdout (snd (main w s)) =
        (case import_module w
                (if 1 < length (argv s) then dir # sys_path s else sys_path s) ''uni20'' of
           Inl e \<Rightarrow> stdout s
         | Inr m \<Rightarrow>
             (case buildinfo m of Inl e \<Rightarrow> stdout s | Inr v \<Rightarrow> stdout s @ [pformat w v])) \<and>
      map fst (import_log (snd (main w s))) = map fst (import_log s) @ [''uni20'']) \<and>
   ''uni20'' \<noteq> ''uni20_python''"
proof (intro conjI impI)
  assume h: "2 \<le> length (argv s) \<and> resolve w (argv s ! 1) = Inr dir"
  then have a: "2 \<le> length (argv s)" and r: "resolve w (argv s ! 1) = Inr dir"
    by simp_all
  show "fst (test_buildinfo_script w s) =
        (case import_module w (dir # sys_path s) ''uni20'' of
           Inl e \<Rightarrow> Uncaught e
         | Inr m \<Rightarrow>
             UnittestMain (case buildinfo m of Inl e \<Rightarrow> Inl e | Inr v \<Rightarrow> check_info v))"
    by (simp add: test_buildinfo_script_def test_buildinfo_load_module_run [OF a r]
          test_buildinfo_reports_metadata_def split: sum.split)
  show "fst (test_greet_script w s) =
        (case import_module w (dir # sys_path s) ''uni20_python'' of
           Inl e \<Rightarrow> Uncaught e
         | Inr m \<Rightarrow>
             UnittestMain
               (case greet m of
                  Inl e \<Rightarrow> Inl e
                | Inr v \<Rightarrow> assertTrue (equals_str v ''Hello from uni20!'')))"
    by (simp add: test_greet_script_def test_greet_load_module_run [OF a r]
          test_greet_returns_expected_message_def split: sum.split)
  show "map fst (import_log (snd (test_buildinfo_script w s))) =
        map fst (import_log s) @ [''uni20'']"
    by (simp add: test_buildinfo_script_def test_buildinfo_load_module_run [OF a r]
          split: sum.split)
  show "map fst (import_log (snd (test_greet_script w s))) =
        map fst (import_log s) @ [''uni20_python'']"
    by (simp add: test_greet_script_def test_greet_load_module_run [OF a r]
          split: sum.split)
next
  assume m: "1 < length (argv s) \<longrightarrow> resolve w (argv s ! 1) = Inr dir"
  show "fst (main w s) =
        (case import_module w
                (if 1 < length (argv s) then dir # sys_path s else sys_path s) ''uni20'' of
           Inl e \<Rightarrow> Inl e
         | Inr m \<Rightarrow> (case buildinfo m of Inl e \<Rightarrow> Inl e | Inr v \<Rightarrow> Inr ()))"
    unfolding main_run [OF m refl] by (simp split: sum.split)
  show "stdout (snd (main w s)) =
        (case import_module w
                (if 1 < length (argv s) then dir # sys_path s else sys_path s) ''uni20'' of
           Inl e \<Rightarrow> stdout s
         | Inr m \<Rightarrow>
             (case buildinfo m of Inl e \<Rightarrow> stdout s | Inr v \<Rightarrow> stdout s @ [pformat w v]))"
    unfolding main_run [OF m refl] by (simp split: sum.split)
  show "map fst (import_log (snd (main w s))) = map fst (import_log s) @ [''uni20'']"
    unfolding main_run [OF m refl] by (simp split: sum.split)
next
  show "''uni20'' \<noteq> ''uni20_python''" by simp
qed

theorem imported_module_names_witness:
  "2 \<le> length (argv sample_state) \<and>
   resolve sample_world (argv sample_state ! 1) = Inr ''/work/build'' \<and>
   fst (test_buildinfo_script sample_world sample_state) =
     UnittestMain (check_info (PDict sample_info)) \<and>
   fst (test_greet_script sample_world sample_state) = UnittestMain (Inr ()) \<and>
   map fst (import_log (snd (test_greet_script sample_world sample_state))) =
     [''uni20_python''] \<and>
   fst (main sample_world sample_state) = Inr () \<and>
   stdout (snd (main sample_world sample_state)) = [''{...}''] \<and>
   map fst (import_log (snd (main sample_world sample_state))) = [''uni20'']"
proof -
  have a: "2 \<le> length (argv sample_state)"
    by (simp add: sample_state_def)
  have r: "resolve sample_world (argv sample_state ! 1) = Inr ''/work/build''"
    by (simp add: sample_state_def sample_world_def)
  have i: "import_module sample_world (''/work/build'' # sys_path sample_state) ''uni20'' =
      Inr sample_module"
    by (simp add: sample_world_def)
  have i': "import_module sample_world (''/work/build'' # sys_path sample_state)
      ''uni20_python'' = Inr sample_greet_module"
    by (simp add: sample_world_def)
  have b: "buildinfo sample_module = Inr (PDict sample_info)"
    by (simp add: sample_module_def)
  have g: "greet sample_greet_module = Inr (PStr ''Hello from uni20!'')"
    by (simp add: sample_greet_module_def)
  have e: "map fst (import_log sample_state) = []" and o: "stdout sample_state = []"
    by (simp_all add: sample_state_def)
  have c: "(if 1 < length (argv sample_state) then ''/work/build'' # sys_path sample_state
            else sys_path sample_state) = ''/work/build'' # sys_path sample_state"
    using a by simp
  have f: "pformat sample_world (PDict sample_info) = ''{...}''"
    by (simp add: sample_world_def)
  from a r have h: "2 \<le> length (argv sample_state) \<and>
      resolve sample_world (argv sample_state ! 1) = Inr ''/work/build''"
    by simp
  from r have h': "1 < length (argv sample_state) \<longrightarrow>
      resolve sample_world (argv sample_state ! 1) = Inr ''/work/build''"
    by simp
  note t = imported_module_names [of sample_state sample_world "''/work/build''",
    THEN conjunct1, THEN mp, OF h, unfolded i i' sum.case b g e]
  note u = imported_module_names [of sample_state sample_world "''/work/build''",
    THEN conjunct2, THEN conjunct1, THEN mp, OF h', unfolded c i sum.case b e o f]
  from a r t u show ?thesis by simp
qed

text \<open>
  The claim as the specification words it, that every caller imports one and the same
  module, fails: on the same command line, in a world that holds both modules, the
  greet test asks for and gets another module than the buildinfo test.
\<close>

theorem imported_module_names_differ:
  "fst (test_greet_load_module sample_world sample_state) = Inr sample_greet_module \<and>
   fst (test_buildinfo_load_module sample_world sample_state) = Inr sample_module \<and>
   sample_greet_module \<noteq> sample_module \<and>
   map fst (import_log (snd (test_greet_load_module sample_world sample_state))) \<noteq>
   map fst (import_log (snd (test_buildinfo_load_module sample_world sample_state)))"
  by (simp add: test_greet_load_module_def test_buildinfo_load_module_def py_import_def
        Let_def sample_state_def sample_world_def sample_greet_module_def sample_module_def)

end
